theory Spec2Isabelle
  imports Main "HOL-Library.Word"
begin

section \<open>Errors\<close>

text \<open>
  The application error codes of package lil, as the table \<open>codes\<close> of http/http.go
  lists them. An error value is either an application error built by \<open>lil.Errorf\<close>
  (a code and a message), a plain Go error (\<open>fmt.Errorf\<close>, or one returned by a
  library), a plain error wrapping another one (\<open>fmt.Errorf("prefix: %s", err)\<close>), or
  a run-time panic.
\<close>

datatype ErrCode = ECONFLICT | EINTERNAL | EINVALID | ENOTFOUND | ENOTIMPLEMENTED | EUNAUTHORIZED

datatype error =
    AppError ErrCode string
  | GoError string
  | Wrapped string error
  | Panic string

text \<open>http/http.go: the lookup table \<open>codes\<close> and \<open>ErrorStatusCode\<close>.\<close>

fun ErrorStatusCode :: "ErrCode \<Rightarrow> nat" where
  "ErrorStatusCode ECONFLICT = 409"
| "ErrorStatusCode EINVALID = 400"
| "ErrorStatusCode ENOTFOUND = 404"
| "ErrorStatusCode ENOTIMPLEMENTED = 501"
| "ErrorStatusCode EUNAUTHORIZED = 401"
| "ErrorStatusCode EINTERNAL = 500"

section \<open>Key generation (package generate)\<close>

type_synonym byte = "8 word"

text \<open>
  \<open>generateRandomBytes n\<close> fills a fresh slice of \<open>n\<close> bytes from crypto/rand. The
  random reader is modelled by the bytes it is going to deliver: a reader that delivers
  fewer than \<open>n\<close> bytes is the error return, and \<open>make([]byte, n)\<close> panics for a
  negative \<open>n\<close>.
\<close>

definition generateRandomBytes :: "byte list \<Rightarrow> int \<Rightarrow> error + byte list" where
  "generateRandomBytes rnd n =
     (if n < 0 then Inl (Panic ''makeslice: len out of range'')
      else if length rnd < nat n then Inl (GoError ''crypto/rand: read failed'')
      else Inr (take (nat n) rnd))"

text \<open>
  The body of the loop of \<open>SecureStringFromAlphabet\<close>: the symbol written for the random
  byte \<open>b\<close> is \<open>arune[int(b) % len(arune)]\<close>. The alphabet is held as its sequence of
  runes (\<open>[]rune(alphabet)\<close>).
\<close>

definition symbolIndex :: "'r list \<Rightarrow> byte \<Rightarrow> nat" where
  "symbolIndex arune b = unat b mod length arune"

definition symbolFor :: "'r list \<Rightarrow> byte \<Rightarrow> 'r" where
  "symbolFor arune b = arune ! symbolIndex arune b"

text \<open>
  \<open>SecureStringFromAlphabet n alphabet\<close>. With an empty alphabet the first byte makes
  the index expression divide by zero, which panics; with no byte to convert (\<open>n = 0\<close>)
  the loop body never runs.
\<close>

definition SecureStringFromAlphabet :: "byte list \<Rightarrow> int \<Rightarrow> 'r list \<Rightarrow> error + 'r list" where
  "SecureStringFromAlphabet rnd n arune =
     (case generateRandomBytes rnd n of
        Inl err \<Rightarrow> Inl err
      | Inr bytes \<Rightarrow>
          if bytes \<noteq> [] \<and> arune = [] then Inl (Panic ''integer divide by zero'')
          else Inr (map (symbolFor arune) bytes))"

text \<open>cmd/lild/main.go: the default configuration of the generator.\<close>

definition DefaultAlphabet :: string where
  "DefaultAlphabet = ''abcdefghijklmnopqrstuvwxyzABCDEFGHIJKLMNOPQRSTUVWXYZ0123456789''"

definition DefaultKeyLength :: int where
  "DefaultKeyLength = 6"

text \<open>
  The 256 values a random byte can take, and those among them that select position
  \<open>i\<close> of the alphabet. Under a uniformly random byte the probability of position
  \<open>i\<close> is \<open>length (preimages arune i) / 256\<close>.
\<close>

definition allBytes :: "byte list" where
  "allBytes = map of_nat [0..<256]"

definition preimages :: "'r list \<Rightarrow> nat \<Rightarrow> byte list" where
  "preimages arune i = filter (\<lambda>b. symbolIndex arune b = i) allBytes"

text \<open>The byte values for which the generator writes the symbol \<open>c\<close>.\<close>

definition symbolBytes :: "'r list \<Rightarrow> 'r \<Rightarrow> byte list" where
  "symbolBytes arune c = filter (\<lambda>b. symbolFor arune b = c) allBytes"

text \<open>
  The byte values on which the generator itself, asked for a key of one symbol and given
  that byte by the random reader, returns the key that consists of the symbol \<open>c\<close>.
\<close>

definition keyBytes :: "'r list \<Rightarrow> 'r \<Rightarrow> byte list" where
  "keyBytes arune c = filter (\<lambda>b. SecureStringFromAlphabet [b] 1 arune = Inr [c]) allBytes"

section \<open>Domain types (package lil)\<close>

text \<open>A \<open>time.Time\<close> is a number of seconds; the zero time is 0.\<close>

type_synonym time = nat

text \<open>user.go: \<open>User\<close>, without the attached list of Auth objects.\<close>

record User =
  user_ID :: int
  Name :: string
  Email :: string
  APIKey :: string
  user_CreatedAt :: time
  user_UpdatedAt :: time

text \<open>user.go: \<open>Validate\<close>; \<open>None\<close> is the nil error.\<close>

definition User_Validate :: "User \<Rightarrow> error option" where
  "User_Validate u =
     (if Name u = [] then Some (AppError EINVALID ''User name required.'') else None)"

text \<open>
  An \<open>Auth\<close> object, with the fields the OAuth handlers set and the columns of the table
  \<open>auths\<close> of the migration. \<open>auth_User\<close> is the attached user object, which is not a
  column.
\<close>

record Auth =
  auth_ID :: int
  auth_UserID :: int
  auth_User :: "User option"
  Source :: string
  SourceID :: string
  AccessToken :: string
  RefreshToken :: string
  Expiry :: "time option"
  auth_CreatedAt :: time
  auth_UpdatedAt :: time

text \<open>
  Modelled from the spec: the provider tags \<open>lil.AuthSourceGitHub\<close> and
  \<open>lil.AuthSourceGoogle\<close> are declared in a file that is not under src/; section 3 of
  the spec gives the tags "github" and "google".
\<close>

definition AuthSourceGitHub :: string where
  "AuthSourceGitHub = ''github''"

definition AuthSourceGoogle :: string where
  "AuthSourceGoogle = ''google''"

text \<open>
  A \<open>url.URL\<close>, reduced to the fields read here, and its rendering \<open>String()\<close> without
  percent-escaping: the scheme and a colon, two slashes and the host, the path, the query
  after a question mark and the fragment after a hash sign. The cases of the library for
  opaque URLs, user information and a colon in the first segment of a relative path are
  left out; none of them renders a URL with a non-empty field as the empty string.
\<close>

record URL =
  Scheme :: string
  Host :: string
  Path :: string
  RawQuery :: string
  Fragment :: string

definition URL_String :: "URL \<Rightarrow> string" where
  "URL_String u =
     (if Scheme u \<noteq> [] then Scheme u @ '':'' else [])
     @ (if (Scheme u \<noteq> [] \<or> Host u \<noteq> []) \<and> (Host u \<noteq> [] \<or> Path u \<noteq> [])
        then ''//'' @ Host u else [])
     @ (if Path u \<noteq> [] \<and> hd (Path u) \<noteq> CHR ''/'' \<and> Host u \<noteq> [] then ''/'' else [])
     @ Path u
     @ (if RawQuery u \<noteq> [] then ''?'' @ RawQuery u else [])
     @ (if Fragment u \<noteq> [] then ''#'' @ Fragment u else [])"

text \<open>short.go: \<open>Short\<close>, without the attached owner object.\<close>

record Short =
  URL :: URL
  Key :: string
  OwnerID :: int
  CreatedAt :: time
  UpdatedAt :: time

record ShortFilter =
  filter_Key :: "string option"
  filter_URL :: "URL option"
  Offset :: int
  Limit :: int

definition ErrEmptyURL :: error where
  "ErrEmptyURL = AppError EINVALID ''Missing URL.''"

definition ErrEmptyKey :: error where
  "ErrEmptyKey = AppError EINVALID ''Missing Key.''"

definition ErrEmptyOwner :: error where
  "ErrEmptyOwner = AppError EINVALID ''Missing owner.''"

definition ErrInvalidURLScheme :: error where
  "ErrInvalidURLScheme =
     AppError EINVALID ''Invalid URL scheme. Only http and https are supported.''"

text \<open>short.go: \<open>Validate\<close>, its four checks in the order of the source.\<close>

definition Validate :: "Short \<Rightarrow> error option" where
  "Validate s =
     (if URL_String (URL s) = [] then Some ErrEmptyURL
      else if Scheme (URL s) \<noteq> ''https'' \<and> Scheme (URL s) \<noteq> ''http''
        then Some ErrInvalidURLScheme
      else if Key s = [] then Some ErrEmptyKey
      else if OwnerID s = 0 then Some ErrEmptyOwner
      else None)"

text \<open>
  The request context carries the authenticated user, if any.
  Modelled from the spec: \<open>lil.UserIDFromContext\<close> is declared in a file that is not under
  src/; by sections 3 and 4.4 of the spec the user id of a context without an
  authenticated user is 0, and otherwise it is the id of that user.
\<close>

type_synonym Context = "User option"

definition UserIDFromContext :: "Context \<Rightarrow> int" where
  "UserIDFromContext ctx = (case ctx of None \<Rightarrow> 0 | Some u \<Rightarrow> user_ID u)"

text \<open>short.go: only the short owner can delete the short.\<close>

definition CanEditShort :: "Context \<Rightarrow> Short \<Rightarrow> bool" where
  "CanEditShort ctx short \<longleftrightarrow> OwnerID short = UserIDFromContext ctx"

section \<open>The store (package sqlite)\<close>

text \<open>
  The database: the three tables of the migration, each as the list of its rows in
  insertion order, the counters of the two AUTOINCREMENT keys, and the time of the
  current transaction (\<open>tx.now\<close>). A transaction works on a copy of this state: commit
  makes the copy the database, rollback drops it. Failures of the connection itself
  (\<open>BeginTx\<close>, a broken query, \<open>Commit\<close>) are outside the model.
\<close>

record DB =
  users :: "User list"
  auths :: "Auth list"
  shorts :: "Short list"
  users_seq :: int
  auths_seq :: int
  now :: time

definition empty_db :: DB where
  "empty_db = \<lparr>users = [], auths = [], shorts = [], users_seq = 0, auths_seq = 0, now = 1\<rparr>"

text \<open>
  Modelled from the spec: \<open>sqlite.FormatLimitOffset\<close> is not under src/. By sections
  4.4 and 6 of the spec a listing takes an offset and a limit; the comment of
  \<open>FindShorts\<close> speaks of a limit that has been set, so a limit or an offset that is not
  positive is not applied. The function is given here by its effect on the rows that
  match the WHERE clause.
\<close>

definition FormatLimitOffset :: "int \<Rightarrow> int \<Rightarrow> 'a list \<Rightarrow> 'a list" where
  "FormatLimitOffset limit offset rows =
     (if limit > 0 \<and> offset > 0 then take (nat limit) (drop (nat offset) rows)
      else if limit > 0 then take (nat limit) rows
      else if offset > 0 then drop (nat offset) rows
      else rows)"

text \<open>
  Modelled from the spec: \<open>sqlite.FormatError\<close> is not under src/. The test
  ErrDuplicateShort expects, for a second short with the same key, the code ECONFLICT and
  the message below (section 7 of the spec: CONFLICT is a uniqueness violation); any
  other error passes through.
\<close>

definition FormatError :: "error \<Rightarrow> error" where
  "FormatError err =
     (if err = GoError ''UNIQUE constraint failed: shorts.key''
      then AppError ECONFLICT ''Short with the same key already exists.''
      else err)"

text \<open>
  The WHERE clause of \<open>findShorts\<close>: \<open>1 = 1\<close>, and \<open>key = ?\<close> and \<open>url = ?\<close> for the
  fields of the filter that are set. (With a URL in the filter the query fails before
  any row is compared, see \<open>findShorts\<close> below.)
\<close>

definition shortMatches :: "ShortFilter \<Rightarrow> Short \<Rightarrow> bool" where
  "shortMatches f row \<longleftrightarrow>
     (case filter_Key f of None \<Rightarrow> True | Some k \<Rightarrow> Key row = k)
     \<and> (case filter_URL f of None \<Rightarrow> True | Some u \<Rightarrow> URL row = u)"

text \<open>
  The query of \<open>findShorts\<close>. There is no ORDER BY: the rows come in the order of the
  table. The window function \<open>COUNT(*) OVER()\<close> puts on every returned row the number
  of rows that match the WHERE clause, before LIMIT and OFFSET apply.
\<close>

definition queryShorts :: "DB \<Rightarrow> ShortFilter \<Rightarrow> (Short \<times> int) list" where
  "queryShorts tx f =
     (let matching = filter (shortMatches f) (shorts tx)
      in map (\<lambda>row. (row, int (length matching)))
           (FormatLimitOffset (Limit f) (Offset f) matching))"

text \<open>
  The scanning loop of \<open>findShorts\<close>: every row is appended to the result and its count
  column overwrites \<open>n\<close>, which starts as 0.
\<close>

fun scanShorts :: "(Short \<times> int) list \<Rightarrow> Short list \<Rightarrow> int \<Rightarrow> Short list \<times> int" where
  "scanShorts [] acc n = (acc, n)"
| "scanShorts ((short, c) # rows) acc n = scanShorts rows (acc @ [short]) c"

text \<open>
  \<open>findShorts\<close>. For a filter with a URL the source appends the \<open>url.URL\<close> struct itself
  to the arguments of the query; database/sql has no conversion for a struct, so
  \<open>QueryContext\<close> returns an error before any row is read and \<open>findShorts\<close> returns
  \<open>FormatError\<close> of it. The URL is the second argument when the filter has a key too.
\<close>

definition findShorts :: "DB \<Rightarrow> ShortFilter \<Rightarrow> error + (Short list \<times> int)" where
  "findShorts tx f =
     (case filter_URL f of
        Some u \<Rightarrow>
          Inl (FormatError (GoError
            (''sql: converting argument $'' @ (if filter_Key f = None then ''1'' else ''2'')
             @ '' type: unsupported type url.URL, a struct'')))
      | None \<Rightarrow> Inr (scanShorts (queryShorts tx f) [] 0))"

definition findShortByKey :: "DB \<Rightarrow> string \<Rightarrow> error + Short" where
  "findShortByKey tx key =
     (case findShorts tx \<lparr>filter_Key = Some key, filter_URL = None, Offset = 0, Limit = 0\<rparr> of
        Inl err \<Rightarrow> Inl err
      | Inr (found, n) \<Rightarrow>
          (case found of
             [] \<Rightarrow> Inl (AppError ENOTFOUND ''Short not found.'')
           | short # rest \<Rightarrow> Inr short))"

text \<open>\<open>FindShorts\<close>: a read-only transaction, rolled back at the end.\<close>

definition FindShorts :: "DB \<Rightarrow> ShortFilter \<Rightarrow> DB \<times> (error + (Short list \<times> int))" where
  "FindShorts db f = (db, findShorts db f)"

text \<open>
  The INSERT of \<open>createShort\<close> under the schema of the table \<open>shorts\<close>, whose primary
  key is \<open>key\<close>: a row with a key that is already in the table is refused and the table
  stays as it is.
\<close>

definition insertShort :: "DB \<Rightarrow> Short \<Rightarrow> error + DB" where
  "insertShort tx short =
     (if Key short \<in> set (map Key (shorts tx))
      then Inl (GoError ''UNIQUE constraint failed: shorts.key'')
      else Inr (tx\<lparr>shorts := shorts tx @ [short]\<rparr>))"

definition createShort :: "Context \<Rightarrow> DB \<Rightarrow> Short \<Rightarrow> error + (DB \<times> Short)" where
  "createShort ctx tx short =
     (let ownerID = UserIDFromContext ctx in
      if ownerID = 0
      then Inl (AppError EUNAUTHORIZED ''You must be logged in to create a short.'')
      else
        let short' = short\<lparr>OwnerID := ownerID, CreatedAt := now tx, UpdatedAt := now tx\<rparr> in
        case Validate short' of
          Some err \<Rightarrow> Inl err
        | None \<Rightarrow>
            (case insertShort tx short' of
               Inl err \<Rightarrow> Inl (FormatError err)
             | Inr tx' \<Rightarrow> Inr (tx', short')))"

text \<open>
  \<open>CreateShort\<close>: on an error of \<open>createShort\<close> the deferred rollback leaves the
  database as it was; otherwise the transaction commits. (The error of
  \<open>attachShortAssociations\<close> is not looked at by the source, and the owner object is not
  part of this model.)
\<close>

definition CreateShort :: "Context \<Rightarrow> DB \<Rightarrow> Short \<Rightarrow> DB \<times> (error + Short)" where
  "CreateShort ctx db short =
     (case createShort ctx db short of
        Inl err \<Rightarrow> (db, Inl err)
      | Inr (tx', short') \<Rightarrow> (tx', Inr short'))"

text \<open>\<open>deleteShort\<close>: look the key up, then \<open>DELETE FROM shorts WHERE key = ?\<close>.\<close>

definition deleteShort :: "Context \<Rightarrow> DB \<Rightarrow> string \<Rightarrow> error + DB" where
  "deleteShort ctx tx key =
     (case findShortByKey tx key of
        Inl err \<Rightarrow> Inl err
      | Inr found \<Rightarrow> Inr (tx\<lparr>shorts := filter (\<lambda>row. Key row \<noteq> key) (shorts tx)\<rparr>))"

definition DeleteShort :: "Context \<Rightarrow> DB \<Rightarrow> string \<Rightarrow> DB \<times> error option" where
  "DeleteShort ctx db key =
     (case deleteShort ctx db key of
        Inl err \<Rightarrow> (db, Some err)
      | Inr tx' \<Rightarrow> (tx', None))"

section \<open>The HTTP server (package http)\<close>

text \<open>http/http.go: the session data kept in the secure cookie.\<close>

record Session =
  UserID :: int
  RedirectURL :: string
  State :: string

definition SessionCookieName :: string where
  "SessionCookieName = ''session''"

definition emptySession :: Session where
  "emptySession = \<lparr>UserID = 0, RedirectURL = [], State = []\<rparr>"

text \<open>
  What the handlers read from a request: the user of the request context, the value of
  the session cookie if the request has one, the Authorization and Accept headers, the
  form values \<open>state\<close> and \<open>code\<close>, the route parameter \<open>key\<close>, the request URL, and
  the results of the standard parsers on the body and on the form value \<open>url\<close>
  (\<open>None\<close> when \<open>json.Decode\<close> or \<open>url.ParseRequestURI\<close> returns an error).
\<close>

record Request =
  ctx :: Context
  SessionCookie :: "string option"
  Authorization :: string
  Accept :: string
  FormState :: string
  FormCode :: string
  URLParamKey :: string
  RequestURL :: URL
  JSONShort :: "Short option"
  FormURL :: "URL option"

text \<open>What the OAuth providers return: a token, and the profile of the user.\<close>

record Token =
  tok_AccessToken :: string
  tok_RefreshToken :: string
  tok_Expiry :: time

record GitHubUser =
  gh_ID :: "int option"
  gh_Name :: "string option"
  gh_Login :: "string option"
  gh_Email :: "string option"

record GoogleUserinfo =
  g_Id :: string
  g_Name :: string
  g_Email :: string

text \<open>
  The server: its configuration and its collaborators. The secure cookie codec
  (\<open>s.sc\<close>, from gorilla/securecookie), the OAuth exchange, the provider clients and
  the services behind the interfaces \<open>AuthService\<close> and \<open>UserService\<close> are fields, given
  as functions. \<open>ShortService\<close> is the sqlite service above, as cmd/lild/main.go wires
  it.
\<close>

record Server =
  KeyLength :: int
  Alphabet :: string
  sc_Decode :: "string \<Rightarrow> error + Session"
  sc_Encode :: "Session \<Rightarrow> error + string"
  Exchange :: "string \<Rightarrow> string \<Rightarrow> error + Token"
  GitHub_Users_Get :: "string \<Rightarrow> error + GitHubUser"
  Google_NewService :: "string \<Rightarrow> error option"
  Google_Me_Get :: "string \<Rightarrow> error + GoogleUserinfo"
  AuthService_CreateAuth :: "DB \<Rightarrow> Auth \<Rightarrow> DB \<times> (error + Auth)"
  UserService_FindUserByID :: "DB \<Rightarrow> int \<Rightarrow> error + User"
  UserService_FindUsers :: "DB \<Rightarrow> string \<Rightarrow> error + User list"

text \<open>
  What a handler leaves behind: the database, the cookies it has set on the response
  (name and value), what it has written (an error through \<open>Error\<close>, a redirect, or a
  rendered short; \<open>Panicked\<close> when it has panicked before writing anything), and the
  Auth objects it has passed to \<open>AuthService.CreateAuth\<close>, in order. Errors of the JSON
  encoder and of the HTML views on the way out are outside the model.
\<close>

datatype reply =
    Errored error
  | Redirected string
  | ShortJSON Short
  | ShortHTML Short
  | Panicked string

record Handled =
  h_db :: DB
  h_cookies :: "(string \<times> string) list"
  h_reply :: reply
  h_CreateAuth_calls :: "Auth list"

text \<open>
  Modelled from the spec: \<open>lil.ErrorCode\<close> is not under src/. By section 7 of the spec
  an application error carries its kind and every other error is INTERNAL.
\<close>

fun ErrorCode :: "error \<Rightarrow> ErrCode" where
  "ErrorCode (AppError code msg) = code"
| "ErrorCode err = EINTERNAL"

text \<open>The HTTP status that \<open>Error(w, r, err)\<close> writes.\<close>

definition errorStatus :: "error \<Rightarrow> nat" where
  "errorStatus err = ErrorStatusCode (ErrorCode err)"

text \<open>\<open>MarshalSession\<close> and \<open>UnmarshalSession\<close> hand over to the codec.\<close>

definition MarshalSession :: "Server \<Rightarrow> Session \<Rightarrow> error + string" where
  "MarshalSession s sess = sc_Encode s sess"

definition UnmarshalSession :: "Server \<Rightarrow> string \<Rightarrow> error + Session" where
  "UnmarshalSession s data = sc_Decode s data"

text \<open>
  \<open>session\<close> returns a pair, as the Go function does: without a session cookie the empty
  session and no error; with a cookie that does not decode the empty session and the
  error of the codec.
\<close>

definition session :: "Server \<Rightarrow> Request \<Rightarrow> Session \<times> error option" where
  "session s r =
     (case SessionCookie r of
        None \<Rightarrow> (emptySession, None)
      | Some v \<Rightarrow>
          (case UnmarshalSession s v of
             Inl err \<Rightarrow> (emptySession, Some err)
           | Inr sess \<Rightarrow> (sess, None)))"

text \<open>\<open>setSession\<close> returns the cookie it sets, or the error of the encoder.\<close>

definition setSession :: "Server \<Rightarrow> Session \<Rightarrow> error + (string \<times> string)" where
  "setSession s sess =
     (case MarshalSession s sess of
        Inl err \<Rightarrow> Inl err
      | Inr buf \<Rightarrow> Inr (SessionCookieName, buf))"

definition failed :: "DB \<Rightarrow> error \<Rightarrow> Auth list \<Rightarrow> Handled" where
  "failed db err calls =
     \<lparr>h_db = db, h_cookies = [], h_reply = Errored err, h_CreateAuth_calls = calls\<rparr>"

text \<open>
  The common end of the two OAuth callbacks, after the Auth object has been built:
  create it through the service, store the user id in the session, clear the redirect
  URL and the state, set the cookie and redirect.
\<close>

definition finishOAuth :: "Server \<Rightarrow> DB \<Rightarrow> Session \<Rightarrow> Auth \<Rightarrow> Handled" where
  "finishOAuth s db sess auth =
     (case AuthService_CreateAuth s db auth of
        (db', Inl err) \<Rightarrow> failed db' (Wrapped ''cannot create auth'' err) [auth]
      | (db', Inr auth') \<Rightarrow>
          (let redirectURL = RedirectURL sess;
               sess' = sess\<lparr>UserID := auth_UserID auth', RedirectURL := [], State := []\<rparr>
           in (case setSession s sess' of
                 Inl err \<Rightarrow> failed db' (Wrapped ''cannot set session cookie'' err) [auth]
               | Inr cookie \<Rightarrow>
                   \<lparr>h_db = db', h_cookies = [cookie],
                    h_reply = Redirected (if redirectURL = [] then ''/'' else redirectURL),
                    h_CreateAuth_calls = [auth]\<rparr>)))"

text \<open>The Auth object of a callback; the expiry is set when the token has one.\<close>

definition newAuth :: "string \<Rightarrow> string \<Rightarrow> Token \<Rightarrow> string \<Rightarrow> string \<Rightarrow> Auth" where
  "newAuth source sourceID tok name email =
     \<lparr>auth_ID = 0, auth_UserID = 0,
      auth_User = Some \<lparr>user_ID = 0, Name = name, Email = email, APIKey = [],
                        user_CreatedAt = 0, user_UpdatedAt = 0\<rparr>,
      Source = source, SourceID = sourceID,
      AccessToken = tok_AccessToken tok, RefreshToken = tok_RefreshToken tok,
      Expiry = (if tok_Expiry tok \<noteq> 0 then Some (tok_Expiry tok) else None),
      auth_CreatedAt = 0, auth_UpdatedAt = 0\<rparr>"

text \<open>\<open>strconv.FormatInt(i, 10)\<close>.\<close>

definition digitChar :: "nat \<Rightarrow> char" where
  "digitChar d = char_of (48 + d)"

function FormatNat :: "nat \<Rightarrow> string" where
  "FormatNat n = (if n < 10 then [digitChar n] else FormatNat (n div 10) @ [digitChar (n mod 10)])"
  by pat_completeness auto
termination
  by (relation "measure id") auto

definition FormatInt :: "int \<Rightarrow> string" where
  "FormatInt i = (if i < 0 then ''-'' @ FormatNat (nat (- i)) else FormatNat (nat i))"

text \<open>http/auth.go: \<open>handleOAuthGoogleCallback\<close>.\<close>

definition handleOAuthGoogleCallback :: "Server \<Rightarrow> DB \<Rightarrow> Request \<Rightarrow> Handled" where
  "handleOAuthGoogleCallback s db r =
     (let state = FormState r; code = FormCode r in
      case session s r of
        (sess, Some err) \<Rightarrow> failed db (Wrapped ''cannot read session'' err) []
      | (sess, None) \<Rightarrow>
          if state \<noteq> State sess then failed db (GoError ''oauth state mismatch'') []
          else
            (case Exchange s AuthSourceGoogle code of
               Inl err \<Rightarrow> failed db (Wrapped ''oauth exchange error'' err) []
             | Inr tok \<Rightarrow>
                 (case Google_NewService s (tok_AccessToken tok) of
                    Some err \<Rightarrow> failed db (Wrapped ''google client creation error'' err) []
                  | None \<Rightarrow>
                      (case Google_Me_Get s (tok_AccessToken tok) of
                         Inl err \<Rightarrow> failed db (Wrapped ''cannot fetch google user'' err) []
                       | Inr c \<Rightarrow>
                           if g_Id c = []
                           then failed db
                             (GoError ''user ID not returned by Google, cannot authenticate user.'') []
                           else finishOAuth s db sess
                             (newAuth AuthSourceGitHub (g_Id c) tok (g_Name c) (g_Email c))))))"

text \<open>http/auth.go: \<open>handleOAuthGitHubCallback\<close>.\<close>

definition handleOAuthGitHubCallback :: "Server \<Rightarrow> DB \<Rightarrow> Request \<Rightarrow> Handled" where
  "handleOAuthGitHubCallback s db r =
     (let state = FormState r; code = FormCode r in
      case session s r of
        (sess, Some err) \<Rightarrow> failed db (Wrapped ''cannot read session'' err) []
      | (sess, None) \<Rightarrow>
          if state \<noteq> State sess then failed db (GoError ''oauth state mismatch'') []
          else
            (case Exchange s AuthSourceGitHub code of
               Inl err \<Rightarrow> failed db (Wrapped ''oauth exchange error'' err) []
             | Inr tok \<Rightarrow>
                 (case GitHub_Users_Get s (tok_AccessToken tok) of
                    Inl err \<Rightarrow> failed db (Wrapped ''cannot fetch github user'' err) []
                  | Inr u \<Rightarrow>
                      (case gh_ID u of
                         None \<Rightarrow> failed db
                           (GoError ''user ID not returned by GitHub, cannot authenticate user'') []
                       | Some uid \<Rightarrow>
                           let name = (case gh_Name u of
                                         Some n \<Rightarrow> n
                                       | None \<Rightarrow> (case gh_Login u of Some l \<Rightarrow> l | None \<Rightarrow> []));
                               email = (case gh_Email u of Some e \<Rightarrow> e | None \<Rightarrow> [])
                           in finishOAuth s db sess
                                (newAuth AuthSourceGitHub (FormatInt uid) tok name email)))))"

text \<open>http/auth.go: \<open>handleLogout\<close> sets the empty session and redirects home.\<close>

definition handleLogout :: "Server \<Rightarrow> DB \<Rightarrow> Request \<Rightarrow> Handled" where
  "handleLogout s db r =
     (case setSession s emptySession of
        Inl err \<Rightarrow> failed db err []
      | Inr cookie \<Rightarrow>
          \<lparr>h_db = db, h_cookies = [cookie], h_reply = Redirected ''/'',
           h_CreateAuth_calls = []\<rparr>)"

text \<open>
  The middleware \<open>authenticate\<close>: an API key in the Authorization header decides alone;
  otherwise the session is read, its error dropped, and the user of a non-zero user id
  is put in the context when the user service finds it.
\<close>

definition authenticate ::
  "Server \<Rightarrow> (DB \<Rightarrow> Request \<Rightarrow> Handled) \<Rightarrow> DB \<Rightarrow> Request \<Rightarrow> Handled" where
  "authenticate s next db r =
     (let v = Authorization r in
      if take 7 v = ''Bearer '' then
        (let apiKey = drop 7 v in
         case UserService_FindUsers s db apiKey of
           Inl err \<Rightarrow> failed db err []
         | Inr found \<Rightarrow>
             (case found of
                [] \<Rightarrow> failed db (AppError EUNAUTHORIZED ''Invalid API key.'') []
              | u # rest \<Rightarrow> next db (r\<lparr>ctx := Some u\<rparr>)))
      else
        (let sess = fst (session s r) in
         if UserID sess \<noteq> 0 then
           (case UserService_FindUserByID s db (UserID sess) of
              Inl err \<Rightarrow> next db r
            | Inr user \<Rightarrow> next db (r\<lparr>ctx := Some user\<rparr>))
         else next db r))"

text \<open>
  The middleware \<open>requireAuth\<close>: a request without a user is sent to the login page,
  with its own URL (without scheme and host) kept in the session.
\<close>

definition requireAuth ::
  "Server \<Rightarrow> (DB \<Rightarrow> Request \<Rightarrow> Handled) \<Rightarrow> DB \<Rightarrow> Request \<Rightarrow> Handled" where
  "requireAuth s next db r =
     (if UserIDFromContext (ctx r) \<noteq> 0 then next db r
      else
        let redirectURL = (RequestURL r)\<lparr>Scheme := [], Host := []\<rparr>;
            sess = (fst (session s r))\<lparr>RedirectURL := URL_String redirectURL\<rparr>
        in \<lparr>h_db = db,
            h_cookies = (case setSession s sess of Inl err \<Rightarrow> [] | Inr cookie \<Rightarrow> [cookie]),
            h_reply = Redirected ''/login'', h_CreateAuth_calls = []\<rparr>)"

text \<open>http/short.go: \<open>handleShortURLDelete\<close>.\<close>

definition handleShortURLDelete :: "Server \<Rightarrow> DB \<Rightarrow> Request \<Rightarrow> Handled" where
  "handleShortURLDelete s db r =
     (let key = URLParamKey r in
      if key = [] then
        failed db (AppError EINTERNAL
          ''empty URLParameter: shouldn't happen, did you forget to configure the route?'') []
      else
        (case DeleteShort (ctx r) db key of
           (db', Some err) \<Rightarrow> failed db' err []
         | (db', None) \<Rightarrow>
             \<lparr>h_db = db',
              h_cookies = [(''flash'', ''Successfully deleted short '' @ key @ ''.'')],
              h_reply = Redirected ''/short'', h_CreateAuth_calls = []\<rparr>))"

text \<open>
  http/short.go: \<open>handleShortURLCreate\<close>. The short comes from the JSON body or from the
  form value \<open>url\<close>; its key is overwritten by one freshly generated key, and the short
  is handed to \<open>CreateShort\<close> once. \<open>rnd\<close> is what the random reader delivers. An
  error of the generator goes to \<open>Error\<close>; a panic in it (a negative key length, an
  empty alphabet) is a panic of the handler.
\<close>

definition zeroURL :: URL where
  "zeroURL = \<lparr>Scheme = [], Host = [], Path = [], RawQuery = [], Fragment = []\<rparr>"

definition zeroShort :: Short where
  "zeroShort = \<lparr>URL = zeroURL, Key = [], OwnerID = 0, CreatedAt = 0, UpdatedAt = 0\<rparr>"

definition requestShort :: "Request \<Rightarrow> error + Short" where
  "requestShort r =
     (if Accept r = ''application/json'' then
        (case JSONShort r of
           None \<Rightarrow> Inl (AppError EINVALID ''We couldn't parse the request body.'')
         | Some short \<Rightarrow> Inr short)
      else
        (case FormURL r of
           None \<Rightarrow> Inl (AppError EINVALID ''Invalid URL passed.'')
         | Some u \<Rightarrow> Inr (zeroShort\<lparr>URL := u\<rparr>)))"

definition handleShortURLCreate :: "Server \<Rightarrow> byte list \<Rightarrow> DB \<Rightarrow> Request \<Rightarrow> Handled" where
  "handleShortURLCreate s rnd db r =
     (case requestShort r of
        Inl err \<Rightarrow> failed db err []
      | Inr short \<Rightarrow>
          (case SecureStringFromAlphabet rnd (KeyLength s) (Alphabet s) of
             Inl err \<Rightarrow>
               (case err of
                  Panic msg \<Rightarrow>
                    \<lparr>h_db = db, h_cookies = [], h_reply = Panicked msg,
                     h_CreateAuth_calls = []\<rparr>
                | other \<Rightarrow> failed db err [])
           | Inr key \<Rightarrow>
               (case CreateShort (ctx r) db (short\<lparr>Key := key\<rparr>) of
                  (db', Inl err) \<Rightarrow> failed db' err []
                | (db', Inr short') \<Rightarrow>
                    \<lparr>h_db = db', h_cookies = [],
                     h_reply = (if Accept r = ''application/json''
                                then ShortJSON short' else ShortHTML short'),
                     h_CreateAuth_calls = []\<rparr>)))"

section \<open>Identity resolution (sqlite AuthService)\<close>

text \<open>
  The table \<open>auths\<close> of the migration has two uniqueness constraints:
  \<open>UNIQUE(user_id, source)\<close>, one source per user, and \<open>UNIQUE(source, source_id)\<close>, one
  auth per source user. The INSERT below is the insert of a row under these constraints;
  \<open>id\<close> is the AUTOINCREMENT key. The foreign keys of the schema are not part of the
  model: the owners that the operations here insert are users of the same store.
\<close>

definition insertAuth :: "DB \<Rightarrow> Auth \<Rightarrow> error + (DB \<times> Auth)" where
  "insertAuth tx a =
     (if (auth_UserID a, Source a) \<in> set (map (\<lambda>x. (auth_UserID x, Source x)) (auths tx))
      then Inl (GoError ''UNIQUE constraint failed: auths.user_id, auths.source'')
      else if (Source a, SourceID a) \<in> set (map (\<lambda>x. (Source x, SourceID x)) (auths tx))
      then Inl (GoError ''UNIQUE constraint failed: auths.source, auths.source_id'')
      else
        let a' = a\<lparr>auth_ID := auths_seq tx + 1, auth_User := None,
                    auth_CreatedAt := now tx, auth_UpdatedAt := now tx\<rparr>
        in Inr (tx\<lparr>auths := auths tx @ [a'], auths_seq := auths_seq tx + 1\<rparr>, a'))"

text \<open>
  The table \<open>users\<close>: \<open>email\<close> is UNIQUE where it is set (an empty email is stored as
  NULL), \<open>api_key\<close> is UNIQUE, \<open>id\<close> is the AUTOINCREMENT key.
\<close>

definition insertUser :: "DB \<Rightarrow> User \<Rightarrow> error + (DB \<times> User)" where
  "insertUser tx u =
     (if Email u \<noteq> [] \<and> Email u \<in> set (map Email (users tx))
      then Inl (GoError ''UNIQUE constraint failed: users.email'')
      else if APIKey u \<in> set (map APIKey (users tx))
      then Inl (GoError ''UNIQUE constraint failed: users.api_key'')
      else
        let u' = u\<lparr>user_ID := users_seq tx + 1,
                    user_CreatedAt := now tx, user_UpdatedAt := now tx\<rparr>
        in Inr (tx\<lparr>users := users tx @ [u'], users_seq := users_seq tx + 1\<rparr>, u'))"

definition findAuthBySourceID :: "DB \<Rightarrow> string \<Rightarrow> string \<Rightarrow> Auth option" where
  "findAuthBySourceID tx source sourceID =
     find (\<lambda>a. Source a = source \<and> SourceID a = sourceID) (auths tx)"

definition findUserByEmail :: "DB \<Rightarrow> string \<Rightarrow> User option" where
  "findUserByEmail tx email = find (\<lambda>u. Email u = email) (users tx)"

definition findUserByID :: "DB \<Rightarrow> int \<Rightarrow> User option" where
  "findUserByID tx uid = find (\<lambda>u. user_ID u = uid) (users tx)"

text \<open>The update in place of the tokens and the expiry of one row of \<open>auths\<close>.\<close>

definition updateAuth :: "DB \<Rightarrow> int \<Rightarrow> string \<Rightarrow> string \<Rightarrow> time option \<Rightarrow> DB" where
  "updateAuth tx aid accessToken refreshToken expiry =
     tx\<lparr>auths := map (\<lambda>a. if auth_ID a = aid
                           then a\<lparr>AccessToken := accessToken, RefreshToken := refreshToken,
                                  Expiry := expiry, auth_UpdatedAt := now tx\<rparr>
                           else a) (auths tx)\<rparr>"

text \<open>The name and the email of the assertion are those of the attached user object.\<close>

definition assertionName :: "Auth \<Rightarrow> string" where
  "assertionName a = (case auth_User a of None \<Rightarrow> [] | Some u \<Rightarrow> Name u)"

definition assertionEmail :: "Auth \<Rightarrow> string" where
  "assertionEmail a = (case auth_User a of None \<Rightarrow> [] | Some u \<Rightarrow> Email u)"

text \<open>
  A uniqueness violation is reported as CONFLICT (section 7 of the spec); other errors
  pass through.
\<close>

definition conflictError :: "error \<Rightarrow> error" where
  "conflictError err =
     (case err of
        GoError msg \<Rightarrow> AppError ECONFLICT ''This account is already linked.''
      | other \<Rightarrow> other)"

text \<open>
  Modelled from the spec: the implementation of \<open>AuthService.CreateAuth\<close> (the file
  sqlite/auth.go) is not under src/; this is the algorithm of section 4.1 of the spec,
  \<open>Resolve\<close>, on the tables of the migration.
  \<^enum> INVALID if the subject is empty.
  \<^enum> Look the identity up by provider and subject. If found, update its access token,
    refresh token and expiry in place and return it with its owning user.
  \<^enum> Else, if the email of the assertion is not empty, look a user up by that email. If
    found, insert a new identity owned by that user; a uniqueness violation is CONFLICT.
  \<^enum> Else create a new user from the name and the email of the assertion, then insert
    the identity referencing it.
  Any failing step fails the whole operation. \<open>apiKey\<close> is the API key drawn for a new
  user.
\<close>

definition createAuth :: "string \<Rightarrow> DB \<Rightarrow> Auth \<Rightarrow> error + (DB \<times> Auth)" where
  "createAuth apiKey tx auth =
     (if SourceID auth = [] then Inl (AppError EINVALID ''Source ID required.'')
      else
        (case findAuthBySourceID tx (Source auth) (SourceID auth) of
           Some other \<Rightarrow>
             Inr (updateAuth tx (auth_ID other) (AccessToken auth) (RefreshToken auth) (Expiry auth),
                  other\<lparr>AccessToken := AccessToken auth, RefreshToken := RefreshToken auth,
                         Expiry := Expiry auth, auth_UpdatedAt := now tx,
                         auth_User := findUserByID tx (auth_UserID other)\<rparr>)
         | None \<Rightarrow>
             (case (if assertionEmail auth \<noteq> [] then findUserByEmail tx (assertionEmail auth)
                    else None) of
                Some user \<Rightarrow>
                  (case insertAuth tx (auth\<lparr>auth_UserID := user_ID user\<rparr>) of
                     Inl err \<Rightarrow> Inl (conflictError err)
                   | Inr (tx', a) \<Rightarrow> Inr (tx', a\<lparr>auth_User := Some user\<rparr>))
              | None \<Rightarrow>
                  (let u = \<lparr>user_ID = 0, Name = assertionName auth, Email = assertionEmail auth,
                            APIKey = apiKey, user_CreatedAt = 0, user_UpdatedAt = 0\<rparr>
                   in case User_Validate u of
                        Some err \<Rightarrow> Inl err
                      | None \<Rightarrow>
                          (case insertUser tx u of
                             Inl err \<Rightarrow> Inl (conflictError err)
                           | Inr (tx1, user) \<Rightarrow>
                               (case insertAuth tx1 (auth\<lparr>auth_UserID := user_ID user\<rparr>) of
                                  Inl err \<Rightarrow> Inl (conflictError err)
                                | Inr (tx', a) \<Rightarrow> Inr (tx', a\<lparr>auth_User := Some user\<rparr>)))))))"

text \<open>
  \<open>CreateAuth\<close> runs \<open>createAuth\<close> in one transaction: an error rolls everything back,
  also a user inserted before the failing step.
\<close>

definition CreateAuth :: "string \<Rightarrow> DB \<Rightarrow> Auth \<Rightarrow> DB \<times> (error + Auth)" where
  "CreateAuth apiKey db auth =
     (case createAuth apiKey db auth of
        Inl err \<Rightarrow> (db, Inl err)
      | Inr (tx', a) \<Rightarrow> (tx', Inr a))"

text \<open>The columns of an identity that say whose it is and which external account it binds.\<close>

definition identityKey :: "Auth \<Rightarrow> int \<times> int \<times> string \<times> string" where
  "identityKey a = (auth_ID a, auth_UserID a, Source a, SourceID a)"

text \<open>
  The two uniqueness invariants of the identities: at most one per provider and subject,
  and at most one per user and provider.
\<close>

definition authsUnique :: "DB \<Rightarrow> bool" where
  "authsUnique db \<longleftrightarrow>
     distinct (map (\<lambda>a. (Source a, SourceID a)) (auths db))
     \<and> distinct (map (\<lambda>a. (auth_UserID a, Source a)) (auths db))"


text \<open>
  The store states that the operations of the services reach from the empty database;
  between two transactions the clock may move.
\<close>

inductive reachable :: "DB \<Rightarrow> bool" where
  reachable_empty: "reachable empty_db"
| reachable_clock: "reachable db \<Longrightarrow> reachable (db\<lparr>now := t\<rparr>)"
| reachable_CreateAuth: "reachable db \<Longrightarrow> reachable (fst (CreateAuth apiKey db auth))"
| reachable_CreateShort: "reachable db \<Longrightarrow> reachable (fst (CreateShort c db short))"
| reachable_DeleteShort: "reachable db \<Longrightarrow> reachable (fst (DeleteShort c db key))"

section \<open>A test configuration\<close>

text \<open>
  A server with stub collaborators, in the manner of the fakes of a Go test: the codec
  accepts the cookie values that start with \<open>ok:\<close> and reads the rest as the state of a
  session of user 7; the exchange accepts one code; the providers return one profile.
\<close>

definition stubDecode :: "string \<Rightarrow> error + Session" where
  "stubDecode v =
     (if take 3 v = ''ok:'' then Inr \<lparr>UserID = 7, RedirectURL = ''/short'', State = drop 3 v\<rparr>
      else Inl (GoError ''securecookie: the value is not valid''))"

definition stubEncode :: "Session \<Rightarrow> error + string" where
  "stubEncode sess = Inr (''ok:'' @ State sess)"

definition stubToken :: Token where
  "stubToken = \<lparr>tok_AccessToken = ''access-1'', tok_RefreshToken = ''refresh-1'', tok_Expiry = 0\<rparr>"

definition stubFindUserByID :: "DB \<Rightarrow> int \<Rightarrow> error + User" where
  "stubFindUserByID db uid =
     (case findUserByID db uid of
        None \<Rightarrow> Inl (AppError ENOTFOUND ''User not found.'')
      | Some u \<Rightarrow> Inr u)"

definition stubFindUsers :: "DB \<Rightarrow> string \<Rightarrow> error + User list" where
  "stubFindUsers db apiKey = Inr (filter (\<lambda>u. APIKey u = apiKey) (users db))"

definition testServer :: Server where
  "testServer =
     \<lparr>KeyLength = DefaultKeyLength, Alphabet = DefaultAlphabet,
      sc_Decode = stubDecode, sc_Encode = stubEncode,
      Exchange = (\<lambda>provider code.
         if code = ''good-code'' then Inr stubToken
         else Inl (GoError ''oauth2: cannot fetch token'')),
      GitHub_Users_Get = (\<lambda>accessToken.
         Inr \<lparr>gh_ID = Some 123, gh_Name = Some ''A'', gh_Login = None,
              gh_Email = Some ''a@x.com''\<rparr>),
      Google_NewService = (\<lambda>accessToken. None),
      Google_Me_Get = (\<lambda>accessToken.
         Inr \<lparr>g_Id = ''g-1'', g_Name = ''A'', g_Email = ''a@x.com''\<rparr>),
      AuthService_CreateAuth = CreateAuth ''api-key-1'',
      UserService_FindUserByID = stubFindUserByID,
      UserService_FindUsers = stubFindUsers\<rparr>"

definition testRequest :: Request where
  "testRequest =
     \<lparr>ctx = None, SessionCookie = None, Authorization = [], Accept = [],
      FormState = [], FormCode = [], URLParamKey = [], RequestURL = zeroURL,
      JSONShort = None, FormURL = None\<rparr>"

definition testUser :: "int \<Rightarrow> User" where
  "testUser uid =
     \<lparr>user_ID = uid, Name = ''Test'', Email = [], APIKey = FormatInt uid,
      user_CreatedAt = 1, user_UpdatedAt = 1\<rparr>"

definition exampleURL :: URL where
  "exampleURL = \<lparr>Scheme = ''https'', Host = ''example.com'', Path = [], RawQuery = [],
                 Fragment = []\<rparr>"

definition testShort :: "string \<Rightarrow> int \<Rightarrow> Short" where
  "testShort key owner =
     \<lparr>URL = exampleURL, Key = key, OwnerID = owner, CreatedAt = 1, UpdatedAt = 1\<rparr>"

text \<open>Three callback requests: a state that differs, a state that matches, a bad cookie.\<close>

definition mismatchRequest :: Request where
  "mismatchRequest =
     testRequest\<lparr>SessionCookie := Some ''ok:abc'', FormState := ''xyz'',
                 FormCode := ''good-code''\<rparr>"

definition goodRequest :: Request where
  "goodRequest =
     testRequest\<lparr>SessionCookie := Some ''ok:abc'', FormState := ''abc'',
                 FormCode := ''good-code''\<rparr>"

definition tamperedRequest :: Request where
  "tamperedRequest = testRequest\<lparr>SessionCookie := Some ''tampered''\<rparr>"

text \<open>The store of the life cycle scenario: users 1 and 2, and the short K of user 1.\<close>

definition lifecycleDB :: DB where
  "lifecycleDB = empty_db\<lparr>users := [testUser 1, testUser 2], shorts := [testShort ''K'' 1]\<rparr>"

text \<open>The store of the test TestShortService_FindShorts, and the second page of a listing.\<close>

definition threeShortsDB :: DB where
  "threeShortsDB =
     empty_db\<lparr>users := [testUser 1],
               shorts := [testShort ''12345'' 1, testShort ''23456'' 1, testShort ''34567'' 1]\<rparr>"

definition secondPage :: ShortFilter where
  "secondPage = \<lparr>filter_Key = None, filter_URL = None, Offset = 20, Limit = 20\<rparr>"

definition ftpShort :: Short where
  "ftpShort = (testShort ''12345'' 0)\<lparr>URL := exampleURL\<lparr>Scheme := ''ftp''\<rparr>\<rparr>"

definition emptyURLShort :: Short where
  "emptyURLShort = (testShort ''12345'' 0)\<lparr>URL := zeroURL\<rparr>"

text \<open>
  A creation request of user 1 on a store that holds the key \<open>aaaaaa\<close>, with a random
  reader that delivers six zero bytes and then six bytes 1.
\<close>

definition collisionDB :: DB where
  "collisionDB = empty_db\<lparr>users := [testUser 1], shorts := [testShort ''aaaaaa'' 1]\<rparr>"

definition createRequest :: Request where
  "createRequest = testRequest\<lparr>ctx := Some (testUser 1), FormURL := Some exampleURL\<rparr>"

definition collisionBytes :: "byte list" where
  "collisionBytes = [0, 0, 0, 0, 0, 0, 1, 1, 1, 1, 1, 1]"

text \<open>
  The new account scenario: the assertion of GitHub user 123 with the name A and the
  email a@x.com, and the store after its first login on the empty database.
\<close>

definition githubAssertion :: Auth where
  "githubAssertion = newAuth AuthSourceGitHub ''123'' stubToken ''A'' ''a@x.com''"

definition storedUser :: User where
  "storedUser =
     \<lparr>user_ID = 1, Name = ''A'', Email = ''a@x.com'', APIKey = ''api-key-1'',
      user_CreatedAt = 1, user_UpdatedAt = 1\<rparr>"

definition storedAuth :: Auth where
  "storedAuth =
     \<lparr>auth_ID = 1, auth_UserID = 1, auth_User = None, Source = ''github'', SourceID = ''123'',
      AccessToken = ''access-1'', RefreshToken = ''refresh-1'', Expiry = None,
      auth_CreatedAt = 1, auth_UpdatedAt = 1\<rparr>"

definition oneIdentityDB :: DB where
  "oneIdentityDB =
     empty_db\<lparr>users := [storedUser], auths := [storedAuth], users_seq := 1, auths_seq := 1\<rparr>"






section \<open>Properties of the key generator\<close>

lemma count_residues:
  assumes "i < n"
  shows "length (filter (\<lambda>k. k mod n = i) [0..<m]) = m div n + (if i < m mod n then 1 else 0)"
proof (induction m)
  case 0
  then show ?case by simp
next
  case (Suc m)
  have n0: "0 < n" using assms by simp
  show ?case
  proof (cases "Suc (m mod n) = n")
    case True
    then have d: "Suc m div n = Suc (m div n)" and r: "Suc m mod n = 0"
      by (simp_all add: div_Suc mod_Suc)
    have "m mod n = i \<longleftrightarrow> \<not> i < m mod n"
      using True assms by auto
    then show ?thesis using Suc d r by auto
  next
    case False
    then have d: "Suc m div n = m div n" and r: "Suc m mod n = Suc (m mod n)"
      by (simp_all add: div_Suc mod_Suc)
    show ?thesis using Suc d r by auto
  qed
qed

lemma unat_byte_of_nat: "k < 256 \<Longrightarrow> unat (of_nat k :: byte) = k"
  by (simp add: unat_of_nat)

lemma length_preimages:
  "length (preimages arune i) = length (filter (\<lambda>k. k mod length arune = i) [0..<256])"
proof -
  have "filter ((\<lambda>b. unat b mod length arune = i) \<circ> (of_nat :: nat \<Rightarrow> byte)) [0..<256]
        = filter (\<lambda>k. k mod length arune = i) [0..<256]"
    by (rule filter_cong) (simp_all add: unat_byte_of_nat)
  then show ?thesis
    by (simp add: preimages_def symbolIndex_def allBytes_def filter_map)
qed

lemma preimages_count:
  assumes "i < length arune"
  shows "length (preimages arune i)
         = 256 div length arune + (if i < 256 mod length arune then 1 else 0)"
  using count_residues [OF assms, of 256] by (simp add: length_preimages)

lemma symbolBytes_distinct:
  assumes "distinct arune" and "i < length arune"
  shows "symbolBytes arune (arune ! i) = preimages arune i"
proof -
  have "(arune ! (unat b mod length arune) = arune ! i) = (unat b mod length arune = i)"
    for b :: byte
  proof -
    have "unat b mod length arune < length arune"
      using assms(2) by (intro mod_less_divisor) auto
    then show ?thesis using assms by (simp add: nth_eq_iff_index_eq)
  qed
  then show ?thesis
    by (simp add: symbolBytes_def preimages_def symbolFor_def symbolIndex_def)
qed

lemma length_DefaultAlphabet: "length DefaultAlphabet = 62"
  by (simp add: DefaultAlphabet_def)

lemma distinct_DefaultAlphabet: "distinct DefaultAlphabet"
  by (simp add: DefaultAlphabet_def)

lemma SecureStringFromAlphabet_single:
  assumes "arune \<noteq> []"
  shows "SecureStringFromAlphabet [b] 1 arune = Inr [symbolFor arune b]"
  using assms by (simp add: SecureStringFromAlphabet_def generateRandomBytes_def)

lemma keyBytes_symbolBytes:
  assumes "arune \<noteq> []"
  shows "keyBytes arune c = symbolBytes arune c"
  using assms by (simp add: keyBytes_def symbolBytes_def SecureStringFromAlphabet_single)

lemma SecureStringFromAlphabet_result:
  assumes "SecureStringFromAlphabet rnd n arune = Inr key"
  shows "key = map (symbolFor arune) (take (nat n) rnd)"
  using assms
  by (auto simp: SecureStringFromAlphabet_def generateRandomBytes_def
      split: if_splits sum.splits)

text \<open>
  Claim C3, as amended. The claim says that for an alphabet whose length does not divide
  256 every symbol has the same number of byte preimages. For an alphabet of \<open>n\<close>
  distinct runes, the generator asked for one symbol returns the symbol at position
  \<open>i\<close> on exactly \<open>256 div n\<close> of the 256 byte values, plus one more when
  \<open>i < 256 mod n\<close>: the first \<open>256 mod n\<close> symbols are favoured. Every symbol of a longer
  key is made in the same way, from its own byte: the key is the image of the bytes read
  under \<open>symbolFor\<close>, and \<open>symbolFor\<close> gives the symbol at position \<open>i\<close> on that same
  number of byte values.
\<close>

theorem C3_symbol_preimage_count:
  assumes "distinct arune" and "i < length arune"
  shows "length (keyBytes arune (arune ! i))
           = 256 div length arune + (if i < 256 mod length arune then 1 else 0)
       \<and> length (symbolBytes arune (arune ! i))
           = 256 div length arune + (if i < 256 mod length arune then 1 else 0)
       \<and> (SecureStringFromAlphabet rnd n arune = Inr key \<longrightarrow>
            key = map (symbolFor arune) (take (nat n) rnd))"
proof -
  have ne: "arune \<noteq> []"
    using assms(2) by auto
  show ?thesis
    using preimages_count [OF assms(2)] SecureStringFromAlphabet_result [of rnd n arune key]
    by (simp add: keyBytes_symbolBytes [OF ne] symbolBytes_distinct [OF assms])
qed

theorem C3_symbol_preimage_count_witness:
  "distinct DefaultAlphabet
   \<and> (7::nat) < length DefaultAlphabet \<and> (8::nat) < length DefaultAlphabet
   \<and> DefaultAlphabet ! 7 = CHR ''h'' \<and> DefaultAlphabet ! 8 = CHR ''i''
   \<and> length (keyBytes DefaultAlphabet (DefaultAlphabet ! 7)) = 5
   \<and> length (keyBytes DefaultAlphabet (DefaultAlphabet ! 8)) = 4
   \<and> SecureStringFromAlphabet collisionBytes 6 DefaultAlphabet = Inr ''aaaaaa''
   \<and> ''aaaaaa'' = map (symbolFor DefaultAlphabet) (take (nat 6) collisionBytes)"
proof -
  have k: "SecureStringFromAlphabet collisionBytes 6 DefaultAlphabet = Inr ''aaaaaa''"
    by (simp add: SecureStringFromAlphabet_def generateRandomBytes_def collisionBytes_def
        symbolFor_def symbolIndex_def DefaultAlphabet_def)
  have n: "DefaultAlphabet ! 7 = CHR ''h''" "DefaultAlphabet ! 8 = CHR ''i''"
    by (simp_all add: DefaultAlphabet_def)
  have l: "(7::nat) < length DefaultAlphabet" "(8::nat) < length DefaultAlphabet"
    by (simp_all add: length_DefaultAlphabet)
  show ?thesis
    using C3_symbol_preimage_count [OF distinct_DefaultAlphabet l(1),
        of collisionBytes 6 "''aaaaaa''"]
      C3_symbol_preimage_count [OF distinct_DefaultAlphabet l(2),
        of collisionBytes 6 "''aaaaaa''"] k
    by (simp add: length_DefaultAlphabet distinct_DefaultAlphabet n)
qed

text \<open>
  Claim C3, as stated, fails for the default alphabet: its length 62 does not divide 256,
  and the symbol \<open>a\<close> (position 0) is written for 5 of the 256 byte values while the
  symbol \<open>9\<close> (position 61) is written for 4 of them.
\<close>

theorem C3_default_alphabet_biased:
  "DefaultAlphabet \<noteq> [] \<and> \<not> length DefaultAlphabet dvd 256
   \<and> length (symbolBytes DefaultAlphabet (CHR ''a'')) = 5
   \<and> length (symbolBytes DefaultAlphabet (CHR ''9'')) = 4"
proof -
  have a: "DefaultAlphabet ! 0 = CHR ''a''" and b: "DefaultAlphabet ! 61 = CHR ''9''"
    by (simp_all add: DefaultAlphabet_def)
  have "length (symbolBytes DefaultAlphabet (DefaultAlphabet ! 0)) = 5"
    using symbolBytes_distinct [OF distinct_DefaultAlphabet, of 0]
      preimages_count [of 0 DefaultAlphabet]
    by (simp add: length_DefaultAlphabet)
  moreover have "length (symbolBytes DefaultAlphabet (DefaultAlphabet ! 61)) = 4"
    using symbolBytes_distinct [OF distinct_DefaultAlphabet, of 61]
      preimages_count [of 61 DefaultAlphabet]
    by (simp add: length_DefaultAlphabet)
  moreover have "DefaultAlphabet \<noteq> []"
    by (simp add: DefaultAlphabet_def)
  ultimately show ?thesis
    by (simp add: a b length_DefaultAlphabet)
qed

section \<open>Properties of the short store\<close>

lemma scanShorts_eq:
  "scanShorts rows acc n = (acc @ map fst rows, if rows = [] then n else snd (last rows))"
  by (induction rows acc n rule: scanShorts.induct) auto

lemma findShorts_eq:
  assumes "filter_URL f = None"
  shows "findShorts tx f =
     Inr (FormatLimitOffset (Limit f) (Offset f) (filter (shortMatches f) (shorts tx)),
          if FormatLimitOffset (Limit f) (Offset f) (filter (shortMatches f) (shorts tx)) = []
          then 0 else int (length (filter (shortMatches f) (shorts tx))))"
  using assms
  by (simp add: findShorts_def queryShorts_def scanShorts_eq Let_def last_map comp_def)

text \<open>A filter with a URL is answered with an error, whatever the store holds.\<close>

lemma findShorts_URL_filter:
  assumes "filter_URL f = Some u"
  shows "\<exists>err. findShorts tx f = Inl err"
  using assms by (simp add: findShorts_def)

text \<open>
  The returned shorts are a window of the matching rows in the order of the table, and
  on a page that is not empty the count is the number of all matching rows.
\<close>

lemma findShorts_count_nonempty:
  assumes "findShorts tx f = Inr (found, n)" and "found \<noteq> []"
  shows "n = int (length (filter (shortMatches f) (shorts tx)))"
proof (cases "filter_URL f")
  case None
  with assms show ?thesis
    by (auto simp: findShorts_eq split: if_splits)
next
  case (Some u)
  with assms show ?thesis
    by (simp add: findShorts_def)
qed

lemma findShortByKey_eq:
  "findShortByKey tx key =
     (case filter (\<lambda>row. Key row = key) (shorts tx) of
        [] \<Rightarrow> Inl (AppError ENOTFOUND ''Short not found.'')
      | short # rest \<Rightarrow> Inr short)"
proof -
  have "shortMatches \<lparr>filter_Key = Some key, filter_URL = None, Offset = 0, Limit = 0\<rparr>
        = (\<lambda>row. Key row = key)"
    by (rule ext) (simp add: shortMatches_def)
  then show ?thesis
    by (simp add: findShortByKey_def findShorts_eq FormatLimitOffset_def split: list.splits)
qed

lemma DeleteShort_absent:
  assumes "key \<notin> set (map Key (shorts db))"
  shows "DeleteShort c db key = (db, Some (AppError ENOTFOUND ''Short not found.''))"
proof -
  from assms have "filter (\<lambda>row. Key row = key) (shorts db) = []"
    by (auto simp: filter_empty_conv)
  then show ?thesis
    by (simp add: DeleteShort_def deleteShort_def findShortByKey_eq)
qed

text \<open>
  \<open>deleteShort\<close> never looks at the context: whoever the caller is, a short whose key is
  in the store is removed.
\<close>

lemma DeleteShort_present:
  assumes "key \<in> set (map Key (shorts db))"
  shows "DeleteShort c db key = (db\<lparr>shorts := filter (\<lambda>row. Key row \<noteq> key) (shorts db)\<rparr>, None)"
proof -
  from assms have "filter (\<lambda>row. Key row = key) (shorts db) \<noteq> []"
    by (auto simp: filter_empty_conv)
  then show ?thesis
    by (simp add: DeleteShort_def deleteShort_def findShortByKey_eq split: list.splits)
qed

text \<open>
  Claim C5. The claim says that \<open>DeleteShort\<close> answers UNAUTHORIZED and leaves the short in
  place when the caller is not its owner. In the life cycle scenario user 2 deletes the
  short K of user 1: \<open>CanEditShort\<close> says that user 2 may not edit it, and \<open>DeleteShort\<close>
  returns no error and removes it.
\<close>

theorem C5_DeleteShort_by_non_owner:
  "\<not> CanEditShort (Some (testUser 2)) (testShort ''K'' 1)
   \<and> DeleteShort (Some (testUser 2)) lifecycleDB ''K'' = (lifecycleDB\<lparr>shorts := []\<rparr>, None)"
proof -
  have "\<not> CanEditShort (Some (testUser 2)) (testShort ''K'' 1)"
    by (simp add: CanEditShort_def UserIDFromContext_def testUser_def testShort_def)
  moreover have "DeleteShort (Some (testUser 2)) lifecycleDB ''K'' = (lifecycleDB\<lparr>shorts := []\<rparr>, None)"
    by (simp add: DeleteShort_def deleteShort_def findShortByKey_eq lifecycleDB_def testShort_def)
  ultimately show ?thesis by simp
qed

lemma Validate_bad_URL:
  assumes "URL_String (URL s) = [] \<or> (Scheme (URL s) \<noteq> ''https'' \<and> Scheme (URL s) \<noteq> ''http'')"
  shows "Validate s = Some (if URL_String (URL s) = [] then ErrEmptyURL else ErrInvalidURLScheme)"
  using assms by (auto simp: Validate_def)

lemma CreateShort_anonymous:
  assumes "UserIDFromContext c = 0"
  shows "CreateShort c db short
         = (db, Inl (AppError EUNAUTHORIZED ''You must be logged in to create a short.''))"
  using assms by (simp add: CreateShort_def createShort_def)

lemma CreateShort_bad_URL:
  assumes "UserIDFromContext c \<noteq> 0"
    and "URL_String (URL short) = []
         \<or> (Scheme (URL short) \<noteq> ''https'' \<and> Scheme (URL short) \<noteq> ''http'')"
  shows "CreateShort c db short
         = (db, Inl (if URL_String (URL short) = [] then ErrEmptyURL else ErrInvalidURLScheme))"
proof -
  let ?s = "short\<lparr>OwnerID := UserIDFromContext c, CreatedAt := now db, UpdatedAt := now db\<rparr>"
  have "Validate ?s = Some (if URL_String (URL ?s) = [] then ErrEmptyURL else ErrInvalidURLScheme)"
    using assms(2) by (intro Validate_bad_URL) simp
  then show ?thesis
    using assms(1) by (simp add: CreateShort_def createShort_def Let_def)
qed

lemma CreateShort_error_keeps_db:
  assumes "snd (CreateShort c db short) = Inl err"
  shows "fst (CreateShort c db short) = db"
  using assms by (auto simp: CreateShort_def split: sum.splits)

text \<open>
  Claim C6, as amended. \<open>CreateShort\<close> fails with UNAUTHORIZED when the context carries
  user id 0, whatever the URL is: the owner is checked before the short is validated. For
  a caller with a user id it fails with INVALID (\<open>ErrEmptyURL\<close> or
  \<open>ErrInvalidURLScheme\<close>) when the URL is empty or its scheme is neither http nor https.
  Whenever it returns an error the store is the one it started from.
\<close>

theorem C6_CreateShort_failures:
  "(UserIDFromContext c = 0 \<longrightarrow>
      CreateShort c db short
      = (db, Inl (AppError EUNAUTHORIZED ''You must be logged in to create a short.'')))
   \<and> (UserIDFromContext c \<noteq> 0
        \<and> (URL_String (URL short) = []
             \<or> (Scheme (URL short) \<noteq> ''https'' \<and> Scheme (URL short) \<noteq> ''http'')) \<longrightarrow>
      CreateShort c db short
      = (db, Inl (if URL_String (URL short) = [] then ErrEmptyURL else ErrInvalidURLScheme))
      \<and> ErrorCode (if URL_String (URL short) = [] then ErrEmptyURL else ErrInvalidURLScheme)
        = EINVALID)
   \<and> (\<forall>err. snd (CreateShort c db short) = Inl err \<longrightarrow> fst (CreateShort c db short) = db)"
  using CreateShort_anonymous [of c db short] CreateShort_bad_URL [of c short db]
    CreateShort_error_keeps_db [of c db short]
  by (simp add: ErrEmptyURL_def ErrInvalidURLScheme_def)

theorem C6_CreateShort_failures_witness:
  "UserIDFromContext None = 0
   \<and> CreateShort None lifecycleDB (testShort ''12345'' 0)
     = (lifecycleDB, Inl (AppError EUNAUTHORIZED ''You must be logged in to create a short.''))
   \<and> UserIDFromContext (Some (testUser 1)) \<noteq> 0
   \<and> Scheme (URL ftpShort) \<noteq> ''https'' \<and> Scheme (URL ftpShort) \<noteq> ''http''
   \<and> CreateShort (Some (testUser 1)) lifecycleDB ftpShort
     = (lifecycleDB,
        Inl (AppError EINVALID ''Invalid URL scheme. Only http and https are supported.''))
   \<and> snd (CreateShort (Some (testUser 1)) lifecycleDB ftpShort)
     = Inl (AppError EINVALID ''Invalid URL scheme. Only http and https are supported.'')
   \<and> fst (CreateShort (Some (testUser 1)) lifecycleDB ftpShort) = lifecycleDB
   \<and> URL_String (URL emptyURLShort) = []
   \<and> CreateShort (Some (testUser 1)) lifecycleDB emptyURLShort
     = (lifecycleDB, Inl (AppError EINVALID ''Missing URL.''))
   \<and> fst (CreateShort (Some (testUser 1)) lifecycleDB emptyURLShort) = lifecycleDB"
proof -
  have u: "UserIDFromContext None = 0" "UserIDFromContext (Some (testUser 1)) \<noteq> 0"
    by (simp_all add: UserIDFromContext_def testUser_def)
  have f: "Scheme (URL ftpShort) = ''ftp''" "URL_String (URL ftpShort) \<noteq> []"
    by (simp_all add: ftpShort_def testShort_def exampleURL_def URL_String_def)
  have e: "URL_String (URL emptyURLShort) = []"
    by (simp add: emptyURLShort_def zeroURL_def URL_String_def)
  show ?thesis
    using C6_CreateShort_failures [of None lifecycleDB "testShort ''12345'' 0"]
      C6_CreateShort_failures [of "Some (testUser 1)" lifecycleDB ftpShort]
      C6_CreateShort_failures [of "Some (testUser 1)" lifecycleDB emptyURLShort]
    by (simp add: u f e ErrInvalidURLScheme_def ErrEmptyURL_def)
qed

text \<open>
  Claim C6, as stated, fails where both of its conditions hold. For a context without a
  user, a short with the scheme ftp and a short with the empty URL are both refused with
  UNAUTHORIZED, not with INVALID.
\<close>

theorem C6_anonymous_bad_URL_is_unauthorized:
  "UserIDFromContext None = 0
   \<and> Scheme (URL ftpShort) \<noteq> ''https'' \<and> Scheme (URL ftpShort) \<noteq> ''http''
   \<and> CreateShort None lifecycleDB ftpShort
     = (lifecycleDB, Inl (AppError EUNAUTHORIZED ''You must be logged in to create a short.''))
   \<and> URL_String (URL emptyURLShort) = []
   \<and> CreateShort None lifecycleDB emptyURLShort
     = (lifecycleDB, Inl (AppError EUNAUTHORIZED ''You must be logged in to create a short.''))
   \<and> ErrorCode (AppError EUNAUTHORIZED ''You must be logged in to create a short.'')
     \<noteq> EINVALID"
proof -
  have u: "UserIDFromContext None = 0"
    by (simp add: UserIDFromContext_def)
  have f: "Scheme (URL ftpShort) = ''ftp''"
    by (simp add: ftpShort_def testShort_def exampleURL_def)
  have e: "URL_String (URL emptyURLShort) = []"
    by (simp add: emptyURLShort_def zeroURL_def URL_String_def)
  show ?thesis
    by (simp add: u f e CreateShort_anonymous [OF u])
qed

text \<open>
  Claim C9. The claim says that the count of \<open>FindShorts\<close> is the number of all shorts
  that match the filter, whatever Limit and Offset are. \<open>n\<close> is read from the count
  column of the returned rows, so a page behind the last match has no row to read it
  from: with three stored shorts, the second page of 20 is empty and its count is 0,
  while all three shorts match the filter.
\<close>

theorem C9_count_zero_behind_last_row:
  "FindShorts threeShortsDB secondPage = (threeShortsDB, Inr ([], 0))
   \<and> length (filter (shortMatches secondPage) (shorts threeShortsDB)) = 3"
proof -
  have m: "shortMatches secondPage = (\<lambda>row. True)"
    by (rule ext) (simp add: shortMatches_def secondPage_def)
  have l: "Limit secondPage = 20" "Offset secondPage = 20" "filter_URL secondPage = None"
    by (simp_all add: secondPage_def)
  have s: "length (shorts threeShortsDB) = 3"
    by (simp add: threeShortsDB_def)
  show ?thesis
    by (simp add: FindShorts_def findShorts_eq m l s FormatLimitOffset_def)
qed

section \<open>Properties of the HTTP handlers\<close>

lemma callback_session_error:
  assumes "session s r = (sess, Some err)"
  shows "handleOAuthGitHubCallback s db r = failed db (Wrapped ''cannot read session'' err) []"
    and "handleOAuthGoogleCallback s db r = failed db (Wrapped ''cannot read session'' err) []"
  using assms by (simp_all add: handleOAuthGitHubCallback_def handleOAuthGoogleCallback_def)

lemma callback_state_mismatch:
  assumes "session s r = (sess, None)" and "FormState r \<noteq> State sess"
  shows "handleOAuthGitHubCallback s db r = failed db (GoError ''oauth state mismatch'') []"
    and "handleOAuthGoogleCallback s db r = failed db (GoError ''oauth state mismatch'') []"
  using assms by (simp_all add: handleOAuthGitHubCallback_def handleOAuthGoogleCallback_def)

lemma session_undecodable:
  assumes "SessionCookie r = Some v" and "UnmarshalSession s v = Inl err"
  shows "session s r = (emptySession, Some err)"
  using assms by (simp add: session_def)

lemma session_mismatchRequest:
  "session testServer mismatchRequest
   = (\<lparr>UserID = 7, RedirectURL = ''/short'', State = ''abc''\<rparr>, None)"
  by (simp add: session_def mismatchRequest_def testRequest_def UnmarshalSession_def
      testServer_def stubDecode_def)

lemma session_goodRequest:
  "session testServer goodRequest
   = (\<lparr>UserID = 7, RedirectURL = ''/short'', State = ''abc''\<rparr>, None)"
  by (simp add: session_def goodRequest_def testRequest_def UnmarshalSession_def
      testServer_def stubDecode_def)

lemma Unmarshal_tampered:
  "UnmarshalSession testServer ''tampered'' = Inl (GoError ''securecookie: the value is not valid'')"
  by (simp add: UnmarshalSession_def testServer_def stubDecode_def)

text \<open>
  Claim C1. A callback of either provider whose form value \<open>state\<close> differs from the
  state of the session read from the request stops at once: the database is untouched,
  no cookie is set (the token of the client, and the user id in it, stays as it was),
  \<open>AuthService.CreateAuth\<close> has not been called, and the reply is the error (the state
  mismatch, or the error of the session when its cookie does not decode).
\<close>

theorem C1_state_mismatch_aborts:
  assumes "FormState r \<noteq> State (fst (session s r))"
  shows "handleOAuthGitHubCallback s db r =
           \<lparr>h_db = db, h_cookies = [],
            h_reply = Errored (case snd (session s r) of
                                 Some err \<Rightarrow> Wrapped ''cannot read session'' err
                               | None \<Rightarrow> GoError ''oauth state mismatch''),
            h_CreateAuth_calls = []\<rparr>
       \<and> handleOAuthGoogleCallback s db r =
           \<lparr>h_db = db, h_cookies = [],
            h_reply = Errored (case snd (session s r) of
                                 Some err \<Rightarrow> Wrapped ''cannot read session'' err
                               | None \<Rightarrow> GoError ''oauth state mismatch''),
            h_CreateAuth_calls = []\<rparr>"
proof (cases "session s r")
  case (Pair sess e)
  show ?thesis
  proof (cases e)
    case None
    with Pair assms show ?thesis
      by (simp add: callback_state_mismatch [of s r sess] failed_def)
  next
    case (Some err)
    with Pair show ?thesis
      by (simp add: callback_session_error [of s r sess err] failed_def)
  qed
qed

theorem C1_state_mismatch_aborts_witness:
  "FormState mismatchRequest \<noteq> State (fst (session testServer mismatchRequest))
   \<and> handleOAuthGitHubCallback testServer empty_db mismatchRequest =
       \<lparr>h_db = empty_db, h_cookies = [], h_reply = Errored (GoError ''oauth state mismatch''),
        h_CreateAuth_calls = []\<rparr>
   \<and> handleOAuthGoogleCallback testServer empty_db mismatchRequest =
       \<lparr>h_db = empty_db, h_cookies = [], h_reply = Errored (GoError ''oauth state mismatch''),
        h_CreateAuth_calls = []\<rparr>"
proof -
  have "FormState mismatchRequest = ''xyz''"
    by (simp add: mismatchRequest_def testRequest_def)
  then show ?thesis
    using C1_state_mismatch_aborts [of mismatchRequest testServer empty_db]
    by (simp add: session_mismatchRequest)
qed

text \<open>
  Claim C2, as amended. For a request whose session cookie does not decode, \<open>session\<close>
  returns the empty session (user id 0) together with the error of the codec. The
  middleware drops the error: without an API key in the Authorization header
  \<open>authenticate\<close> passes the request on as it came, and \<open>requireAuth\<close> sends a request
  without a user to the login page with a token built from the empty session. The two
  OAuth callbacks check the error and report it to the client.
\<close>

theorem C2_undecodable_cookie:
  assumes "SessionCookie r = Some v" and "UnmarshalSession s v = Inl err"
  shows "session s r = (emptySession, Some err)
       \<and> UserID (fst (session s r)) = 0
       \<and> (take 7 (Authorization r) \<noteq> ''Bearer '' \<longrightarrow> authenticate s next db r = next db r)
       \<and> (UserIDFromContext (ctx r) = 0 \<longrightarrow>
            h_reply (requireAuth s next db r) = Redirected ''/login''
            \<and> h_cookies (requireAuth s next db r)
              = (case setSession s (emptySession\<lparr>RedirectURL :=
                        URL_String ((RequestURL r)\<lparr>Scheme := [], Host := []\<rparr>)\<rparr>) of
                   Inl e \<Rightarrow> []
                 | Inr cookie \<Rightarrow> [cookie]))
       \<and> handleOAuthGitHubCallback s db r =
           \<lparr>h_db = db, h_cookies = [],
            h_reply = Errored (Wrapped ''cannot read session'' err), h_CreateAuth_calls = []\<rparr>
       \<and> handleOAuthGoogleCallback s db r =
           \<lparr>h_db = db, h_cookies = [],
            h_reply = Errored (Wrapped ''cannot read session'' err), h_CreateAuth_calls = []\<rparr>"
proof -
  have a: "session s r = (emptySession, Some err)"
    using assms by (rule session_undecodable)
  have "take 7 (Authorization r) \<noteq> ''Bearer '' \<longrightarrow> authenticate s next db r = next db r"
    by (simp add: authenticate_def a emptySession_def Let_def)
  moreover have "UserIDFromContext (ctx r) = 0 \<longrightarrow>
      h_reply (requireAuth s next db r) = Redirected ''/login''
      \<and> h_cookies (requireAuth s next db r)
        = (case setSession s (emptySession\<lparr>RedirectURL :=
                  URL_String ((RequestURL r)\<lparr>Scheme := [], Host := []\<rparr>)\<rparr>) of
             Inl e \<Rightarrow> []
           | Inr cookie \<Rightarrow> [cookie])"
    by (simp add: requireAuth_def a Let_def)
  ultimately show ?thesis
    using callback_session_error [OF a, of db]
    by (simp add: a emptySession_def failed_def)
qed

theorem C2_undecodable_cookie_witness:
  "SessionCookie tamperedRequest = Some ''tampered''
   \<and> UnmarshalSession testServer ''tampered''
     = Inl (GoError ''securecookie: the value is not valid'')
   \<and> take 7 (Authorization tamperedRequest) \<noteq> ''Bearer ''
   \<and> UserIDFromContext (ctx tamperedRequest) = 0
   \<and> session testServer tamperedRequest
     = (emptySession, Some (GoError ''securecookie: the value is not valid''))
   \<and> authenticate testServer (handleShortURLDelete testServer) empty_db tamperedRequest
     = handleShortURLDelete testServer empty_db tamperedRequest
   \<and> h_reply (requireAuth testServer (handleShortURLDelete testServer) empty_db tamperedRequest)
     = Redirected ''/login''
   \<and> h_reply (handleOAuthGitHubCallback testServer empty_db tamperedRequest)
     = Errored (Wrapped ''cannot read session''
                 (GoError ''securecookie: the value is not valid''))"
proof -
  have c: "SessionCookie tamperedRequest = Some ''tampered''"
    and h: "take 7 (Authorization tamperedRequest) \<noteq> ''Bearer ''"
    and u: "UserIDFromContext (ctx tamperedRequest) = 0"
    by (simp_all add: tamperedRequest_def testRequest_def UserIDFromContext_def)
  show ?thesis
    using C2_undecodable_cookie [OF c Unmarshal_tampered,
        of "handleShortURLDelete testServer" empty_db]
    by (simp add: c h u Unmarshal_tampered)
qed

text \<open>
  Claim C2, as stated, fails: the session cookie of the request does not decode, and the
  Google callback answers with the error of the session, status 500.
\<close>

theorem C2_decode_error_reaches_client:
  "SessionCookie tamperedRequest = Some ''tampered''
   \<and> UnmarshalSession testServer ''tampered''
     = Inl (GoError ''securecookie: the value is not valid'')
   \<and> h_reply (handleOAuthGoogleCallback testServer empty_db tamperedRequest)
     = Errored (Wrapped ''cannot read session''
                 (GoError ''securecookie: the value is not valid''))
   \<and> errorStatus (Wrapped ''cannot read session''
                    (GoError ''securecookie: the value is not valid'')) = 500"
proof -
  have c: "SessionCookie tamperedRequest = Some ''tampered''"
    by (simp add: tamperedRequest_def testRequest_def)
  have "session testServer tamperedRequest
        = (emptySession, Some (GoError ''securecookie: the value is not valid''))"
    using c Unmarshal_tampered by (rule session_undecodable)
  then show ?thesis
    using callback_session_error(2) [of testServer tamperedRequest emptySession _ empty_db]
    by (simp add: c Unmarshal_tampered failed_def errorStatus_def)
qed

lemma finishOAuth_calls: "h_CreateAuth_calls (finishOAuth s db sess a) = [a]"
  by (simp add: finishOAuth_def failed_def Let_def split: prod.splits sum.splits)

lemma testServer_google:
  "Exchange testServer p ''good-code'' = Inr stubToken"
  "Google_NewService testServer t = None"
  "Google_Me_Get testServer t = Inr \<lparr>g_Id = ''g-1'', g_Name = ''A'', g_Email = ''a@x.com''\<rparr>"
  by (simp_all add: testServer_def)

lemma goodRequest_calls:
  "h_CreateAuth_calls (handleOAuthGoogleCallback testServer empty_db goodRequest)
   = [newAuth ''github'' ''g-1'' stubToken ''A'' ''a@x.com'']"
proof -
  have "FormState goodRequest = ''abc''" "FormCode goodRequest = ''good-code''"
    by (simp_all add: goodRequest_def testRequest_def)
  then show ?thesis
    by (simp add: handleOAuthGoogleCallback_def session_goodRequest finishOAuth_calls
        testServer_google AuthSourceGitHub_def)
qed

text \<open>
  Claim C10. Whenever the Google callback gets as far as \<open>AuthService.CreateAuth\<close>, it
  calls it once, with an Auth object whose source is the GitHub tag, not the Google one,
  and whose source id is the id of the Google profile.
\<close>

theorem C10_google_auth_has_github_source:
  assumes "h_CreateAuth_calls (handleOAuthGoogleCallback s db r) \<noteq> []"
  shows "\<exists>auth. h_CreateAuth_calls (handleOAuthGoogleCallback s db r) = [auth]
           \<and> Source auth = AuthSourceGitHub \<and> Source auth \<noteq> AuthSourceGoogle"
proof -
  have src: "\<And>sid tok n e. Source (newAuth AuthSourceGitHub sid tok n e) = AuthSourceGitHub"
    by (simp add: newAuth_def)
  have ne: "AuthSourceGitHub \<noteq> AuthSourceGoogle"
    by (simp add: AuthSourceGitHub_def AuthSourceGoogle_def)
  show ?thesis using assms
    by (auto simp add: handleOAuthGoogleCallback_def failed_def finishOAuth_calls src ne Let_def
         split: prod.splits option.splits sum.splits if_splits)
qed

theorem C10_google_auth_has_github_source_witness:
  "h_CreateAuth_calls (handleOAuthGoogleCallback testServer empty_db goodRequest) \<noteq> []
   \<and> map Source (h_CreateAuth_calls (handleOAuthGoogleCallback testServer empty_db goodRequest))
     = [''github'']
   \<and> map SourceID (h_CreateAuth_calls (handleOAuthGoogleCallback testServer empty_db goodRequest))
     = [''g-1'']"
  using C10_google_auth_has_github_source [of testServer empty_db goodRequest]
  by (auto simp add: goodRequest_calls AuthSourceGitHub_def newAuth_def)

lemma generateRandomBytes_take:
  "generateRandomBytes (take (nat n) rnd) n = generateRandomBytes rnd n"
  by (auto simp: generateRandomBytes_def min_def)

lemma handleShortURLCreate_take:
  "handleShortURLCreate s (take (nat (KeyLength s)) rnd) db r = handleShortURLCreate s rnd db r"
proof -
  have "SecureStringFromAlphabet (take (nat (KeyLength s)) rnd) (KeyLength s) (Alphabet s)
        = SecureStringFromAlphabet rnd (KeyLength s) (Alphabet s)"
    unfolding SecureStringFromAlphabet_def generateRandomBytes_take ..
  then show ?thesis
    unfolding handleShortURLCreate_def by (cases "requestShort r") simp_all
qed

lemma CreateShort_collision:
  assumes "UserIDFromContext c \<noteq> 0"
    and "URL_String (URL short) \<noteq> []"
    and "Scheme (URL short) = ''https'' \<or> Scheme (URL short) = ''http''"
    and "Key short \<noteq> []"
    and "Key short \<in> set (map Key (shorts db))"
  shows "CreateShort c db short
         = (db, Inl (AppError ECONFLICT ''Short with the same key already exists.''))"
  using assms
  by (auto simp: CreateShort_def createShort_def Validate_def insertShort_def FormatError_def
      Let_def)

lemma handleShortURLCreate_collision:
  assumes "requestShort r = Inr short"
    and "SecureStringFromAlphabet rnd (KeyLength s) (Alphabet s) = Inr key"
    and "key \<in> set (map Key (shorts db))"
    and "UserIDFromContext (ctx r) \<noteq> 0"
    and "URL_String (URL short) \<noteq> []"
    and "Scheme (URL short) = ''https'' \<or> Scheme (URL short) = ''http''"
    and "key \<noteq> []"
  shows "handleShortURLCreate s rnd db r =
           \<lparr>h_db = db, h_cookies = [],
            h_reply = Errored (AppError ECONFLICT ''Short with the same key already exists.''),
            h_CreateAuth_calls = []\<rparr>"
  using assms CreateShort_collision [of "ctx r" "short\<lparr>Key := key\<rparr>" db]
  by (simp add: handleShortURLCreate_def failed_def)

lemma collisionBytes_first_key:
  "SecureStringFromAlphabet collisionBytes (KeyLength testServer) (Alphabet testServer)
   = Inr ''aaaaaa''"
  by (simp add: SecureStringFromAlphabet_def generateRandomBytes_def collisionBytes_def
      testServer_def DefaultKeyLength_def symbolFor_def symbolIndex_def DefaultAlphabet_def)

lemma collisionBytes_second_key:
  "SecureStringFromAlphabet (drop 6 collisionBytes) (KeyLength testServer) (Alphabet testServer)
   = Inr ''bbbbbb''"
  by (simp add: SecureStringFromAlphabet_def generateRandomBytes_def collisionBytes_def
      testServer_def DefaultKeyLength_def symbolFor_def symbolIndex_def DefaultAlphabet_def)

lemma requestShort_createRequest:
  "requestShort createRequest = Inr (zeroShort\<lparr>URL := exampleURL\<rparr>)"
  by (simp add: requestShort_def createRequest_def testRequest_def)

lemma createRequest_valid:
  "''aaaaaa'' \<in> set (map Key (shorts collisionDB))"
  "''bbbbbb'' \<notin> set (map Key (shorts collisionDB))"
  "UserIDFromContext (ctx createRequest) \<noteq> 0"
  "URL_String (URL (zeroShort\<lparr>URL := exampleURL\<rparr>)) \<noteq> []"
  "Scheme (URL (zeroShort\<lparr>URL := exampleURL\<rparr>)) = ''https''"
  by (simp_all add: collisionDB_def testShort_def createRequest_def testRequest_def
      UserIDFromContext_def testUser_def exampleURL_def URL_String_def)

text \<open>
  Claim C7, as amended. \<open>handleShortURLCreate\<close> draws one key and calls \<open>CreateShort\<close>
  once. When that key is the key of a stored short (the request being otherwise valid),
  the reply is CONFLICT at once and the store is unchanged; nothing is regenerated: the
  handler reads the first \<open>KeyLength\<close> random bytes and no more.
\<close>

theorem C7_collision_is_conflict_at_once:
  assumes "requestShort r = Inr short"
    and "SecureStringFromAlphabet rnd (KeyLength s) (Alphabet s) = Inr key"
    and "key \<in> set (map Key (shorts db))"
    and "UserIDFromContext (ctx r) \<noteq> 0"
    and "URL_String (URL short) \<noteq> []"
    and "Scheme (URL short) = ''https'' \<or> Scheme (URL short) = ''http''"
    and "key \<noteq> []"
  shows "handleShortURLCreate s rnd db r =
           \<lparr>h_db = db, h_cookies = [],
            h_reply = Errored (AppError ECONFLICT ''Short with the same key already exists.''),
            h_CreateAuth_calls = []\<rparr>
       \<and> handleShortURLCreate s (take (nat (KeyLength s)) rnd) db r
         = handleShortURLCreate s rnd db r"
  using handleShortURLCreate_collision [OF assms] handleShortURLCreate_take [of s rnd db r]
  by simp

theorem C7_collision_is_conflict_at_once_witness:
  "requestShort createRequest = Inr (zeroShort\<lparr>URL := exampleURL\<rparr>)
   \<and> SecureStringFromAlphabet collisionBytes (KeyLength testServer) (Alphabet testServer)
     = Inr ''aaaaaa''
   \<and> ''aaaaaa'' \<in> set (map Key (shorts collisionDB))
   \<and> UserIDFromContext (ctx createRequest) \<noteq> 0
   \<and> URL_String (URL (zeroShort\<lparr>URL := exampleURL\<rparr>)) \<noteq> []
   \<and> Scheme (URL (zeroShort\<lparr>URL := exampleURL\<rparr>)) = ''https''
   \<and> handleShortURLCreate testServer collisionBytes collisionDB createRequest =
       \<lparr>h_db = collisionDB, h_cookies = [],
        h_reply = Errored (AppError ECONFLICT ''Short with the same key already exists.''),
        h_CreateAuth_calls = []\<rparr>"
proof -
  have "handleShortURLCreate testServer collisionBytes collisionDB createRequest =
          \<lparr>h_db = collisionDB, h_cookies = [],
           h_reply = Errored (AppError ECONFLICT ''Short with the same key already exists.''),
           h_CreateAuth_calls = []\<rparr>
        \<and> handleShortURLCreate testServer (take (nat (KeyLength testServer)) collisionBytes)
            collisionDB createRequest
          = handleShortURLCreate testServer collisionBytes collisionDB createRequest"
    by (rule C7_collision_is_conflict_at_once
        [OF requestShort_createRequest collisionBytes_first_key])
      (insert createRequest_valid, simp_all)
  then show ?thesis
    using createRequest_valid
    by (simp add: requestShort_createRequest collisionBytes_first_key)
qed

text \<open>
  Claim C7, as stated, fails. The first six random bytes give the key \<open>aaaaaa\<close>, which
  is in the store; the next six would give the free key \<open>bbbbbb\<close>. The handler answers
  CONFLICT (status 409) on this first collision, without a second attempt.
\<close>

theorem C7_conflict_on_first_collision:
  "SecureStringFromAlphabet collisionBytes (KeyLength testServer) (Alphabet testServer)
     = Inr ''aaaaaa''
   \<and> ''aaaaaa'' \<in> set (map Key (shorts collisionDB))
   \<and> SecureStringFromAlphabet (drop 6 collisionBytes) (KeyLength testServer) (Alphabet testServer)
     = Inr ''bbbbbb''
   \<and> ''bbbbbb'' \<notin> set (map Key (shorts collisionDB))
   \<and> handleShortURLCreate testServer collisionBytes collisionDB createRequest =
       \<lparr>h_db = collisionDB, h_cookies = [],
        h_reply = Errored (AppError ECONFLICT ''Short with the same key already exists.''),
        h_CreateAuth_calls = []\<rparr>
   \<and> errorStatus (AppError ECONFLICT ''Short with the same key already exists.'') = 409"
proof -
  have "handleShortURLCreate testServer collisionBytes collisionDB createRequest =
          \<lparr>h_db = collisionDB, h_cookies = [],
           h_reply = Errored (AppError ECONFLICT ''Short with the same key already exists.''),
           h_CreateAuth_calls = []\<rparr>"
    by (rule handleShortURLCreate_collision
        [OF requestShort_createRequest collisionBytes_first_key])
      (insert createRequest_valid, simp_all)
  then show ?thesis
    using createRequest_valid
    by (simp add: collisionBytes_first_key collisionBytes_second_key errorStatus_def)
qed

section \<open>Properties of identity resolution\<close>




lemma insertUser_result:
  assumes "insertUser tx u = Inr (tx', u')"
  shows "auths tx' = auths tx"
  using assms by (auto simp: insertUser_def Let_def split: if_splits)

lemma updateAuth_keys:
  "map (\<lambda>a. (Source a, SourceID a)) (auths (updateAuth tx aid at rt ex))
   = map (\<lambda>a. (Source a, SourceID a)) (auths tx)"
  "map (\<lambda>a. (auth_UserID a, Source a)) (auths (updateAuth tx aid at rt ex))
   = map (\<lambda>a. (auth_UserID a, Source a)) (auths tx)"
  "map identityKey (auths (updateAuth tx aid at rt ex)) = map identityKey (auths tx)"
  by (simp_all add: updateAuth_def comp_def identityKey_def)

subsection \<open>The uniqueness invariants\<close>

lemma insertAuth_unique:
  assumes "insertAuth tx a = Inr (tx', a')" and "authsUnique tx"
  shows "authsUnique tx'"
  using assms
  by (auto simp: insertAuth_def authsUnique_def Let_def split: if_splits)

lemma updateAuth_unique: "authsUnique tx \<Longrightarrow> authsUnique (updateAuth tx aid at rt ex)"
  by (simp add: authsUnique_def updateAuth_keys)

lemma insertUser_unique:
  "insertUser tx u = Inr (tx', u') \<Longrightarrow> authsUnique tx \<Longrightarrow> authsUnique tx'"
  by (simp add: authsUnique_def insertUser_result)

lemma createAuth_unique:
  assumes "createAuth k tx a = Inr (tx', a')" and "authsUnique tx"
  shows "authsUnique tx'"
  using assms
  by (auto simp: createAuth_def Let_def updateAuth_unique
      split: if_splits option.splits sum.splits prod.splits
      dest: insertAuth_unique insertUser_unique)

lemma CreateAuth_unique: "authsUnique db \<Longrightarrow> authsUnique (fst (CreateAuth k db a))"
  by (auto simp: CreateAuth_def split: sum.splits dest: createAuth_unique)

lemma CreateShort_auths: "auths (fst (CreateShort c db s)) = auths db"
  by (auto simp: CreateShort_def createShort_def insertShort_def Let_def
      split: sum.splits if_splits option.splits)

lemma DeleteShort_auths: "auths (fst (DeleteShort c db k)) = auths db"
  by (auto simp: DeleteShort_def deleteShort_def split: sum.splits)

lemma reachable_unique: "reachable db \<Longrightarrow> authsUnique db"
proof (induction rule: reachable.induct)
  case reachable_empty
  then show ?case by (simp add: authsUnique_def empty_db_def)
next
  case (reachable_clock db t)
  then show ?case by (simp add: authsUnique_def)
next
  case (reachable_CreateAuth db apiKey auth)
  then show ?case by (simp add: CreateAuth_unique)
next
  case (reachable_CreateShort db c short)
  then show ?case by (simp add: authsUnique_def CreateShort_auths)
next
  case (reachable_DeleteShort db c key)
  then show ?case by (simp add: authsUnique_def DeleteShort_auths)
qed

lemma first_login:
  "CreateAuth ''api-key-1'' empty_db githubAssertion
   = (oneIdentityDB, Inr (storedAuth\<lparr>auth_User := Some storedUser\<rparr>))"
  by (simp add: CreateAuth_def createAuth_def githubAssertion_def newAuth_def stubToken_def
      AuthSourceGitHub_def findAuthBySourceID_def findUserByEmail_def assertionEmail_def
      assertionName_def User_Validate_def insertUser_def insertAuth_def empty_db_def
      oneIdentityDB_def storedUser_def storedAuth_def Let_def)

lemma reachable_oneIdentityDB: "reachable oneIdentityDB"
  using reachable_CreateAuth [OF reachable_empty, of "''api-key-1''" githubAssertion]
  by (simp add: first_login)

text \<open>
  Claim C8. In every store state that the operations reach from the empty database there
  is at most one identity per provider and subject and at most one per user and provider;
  and each operation (\<open>CreateAuth\<close>, \<open>CreateShort\<close>, \<open>DeleteShort\<close>, the move of the
  clock) takes a store with both properties to a store with both properties.
\<close>

theorem C8_identities_unique:
  "(reachable db \<longrightarrow> authsUnique db)
   \<and> (authsUnique db \<longrightarrow>
        authsUnique (fst (CreateAuth apiKey db auth))
        \<and> authsUnique (fst (CreateShort c db short))
        \<and> authsUnique (fst (DeleteShort c db key))
        \<and> authsUnique (db\<lparr>now := t\<rparr>))"
  using reachable_unique [of db] CreateAuth_unique [of db apiKey auth]
  by (simp add: authsUnique_def CreateShort_auths DeleteShort_auths)

theorem C8_identities_unique_witness:
  "reachable oneIdentityDB \<and> authsUnique oneIdentityDB
   \<and> map (\<lambda>a. (Source a, SourceID a)) (auths oneIdentityDB) = [(''github'', ''123'')]
   \<and> authsUnique (fst (CreateAuth ''api-key-2'' oneIdentityDB
        (newAuth AuthSourceGoogle ''g-1'' stubToken ''A'' ''a@x.com'')))"
  using C8_identities_unique [of oneIdentityDB "''api-key-2''"
      "newAuth AuthSourceGoogle ''g-1'' stubToken ''A'' ''a@x.com''"]
    reachable_oneIdentityDB
  by (simp add: oneIdentityDB_def storedAuth_def)

subsection \<open>Repeated logins\<close>





subsection \<open>The primary key of the identities\<close>

















end
